theory Spec2Isabelle
  imports Main
begin

section \<open>Prompt token estimation for chat completion requests\<close>

text \<open>
  A shallow embedding of \<^verbatim>\<open>pkg/agents/chatcompletion/tokens.go\<close>: the function
  \<^verbatim>\<open>countPromptTokens\<close>, which estimates the prompt tokens of a chat completion
  request, and \<^verbatim>\<open>toTokenRequest\<close>, which reduces the request to the name, role and
  content of its messages by a round trip through JSON.

  A Go \<^verbatim>\<open>string\<close> is a sequence of bytes, as an Isabelle \<open>string\<close> is. Go's
  \<^verbatim>\<open>int\<close> is modelled by \<open>int\<close>: the count is a sum of slice lengths and of one small
  constant per message, which for a request that fits in memory stays far below the
  range of the machine word, so wrap-around is not modelled.
\<close>

subsection \<open>Strings\<close>

text \<open>\<^verbatim>\<open>strings.Contains(s, substr)\<close>: \<open>substr\<close> occurs in \<open>s\<close> as a contiguous run of bytes.\<close>

fun Contains :: "string \<Rightarrow> string \<Rightarrow> bool" where
  "Contains [] substr = (substr = [])"
| "Contains (c # s) substr = (take (length substr) (c # s) = substr \<or> Contains s substr)"

subsection \<open>The tokenizer\<close>

text \<open>
  The tokenizer is the library \<^verbatim>\<open>tiktoken-go\<close>, which is not part of the repository.
  A \<^verbatim>\<open>*tiktoken.Tiktoken\<close> is modelled by its method \<^verbatim>\<open>Encode(s, nil, nil)\<close>, from a
  string to the list of token ids; \<^verbatim>\<open>tiktoken.EncodingForModel\<close> is a parameter of
  the functions below, of type \<open>string \<Rightarrow> Tiktoken option\<close>, where \<open>None\<close> is the
  library's error.
\<close>

type_synonym Tiktoken = "string \<Rightarrow> nat list"

text \<open>The closure \<^verbatim>\<open>count\<close> of lines 63 to 65.\<close>

definition count :: "Tiktoken \<Rightarrow> string \<Rightarrow> int" where
  "count tkm s = int (length (tkm s))"

subsection \<open>JSON documents\<close>

text \<open>
  \<^verbatim>\<open>json.Marshal\<close> followed by \<^verbatim>\<open>json.Unmarshal\<close> is modelled on the document
  that the bytes denote: a value is null, a boolean, a number (its literal), a string, an
  array, or an object, whose members are kept in the order of the text.
\<close>

datatype json =
    JNull
  | JBool bool
  | JNumber string
  | JString string
  | JArray "json list"
  | JObject "(string \<times> json) list"

text \<open>
  The two ways in which \<^verbatim>\<open>toTokenRequest\<close> fails: \<^verbatim>\<open>json.Marshal\<close> returns an error,
  or \<^verbatim>\<open>json.Unmarshal\<close> meets a value that does not fit the Go type it decodes into
  (an \<^verbatim>\<open>UnmarshalTypeError\<close>). The texts of the errors are not modelled.
\<close>

datatype json_error = MarshalError | UnmarshalTypeError

subsection \<open>The token request\<close>

record tokenMessage =
  Name :: string
  Role :: string
  Content :: string

record tokenRequest =
  Messages :: "tokenMessage list"

text \<open>
  \<^verbatim>\<open>json.Unmarshal\<close> into a \<^verbatim>\<open>tokenRequest\<close>, read off the struct tags of lines 140 to
  149. Decoding into a Go string: null leaves the field as it is, a JSON string is
  stored, every other value is a type error.
\<close>

fun unmarshalString :: "string \<Rightarrow> json \<Rightarrow> json_error + string" where
  "unmarshalString cur JNull = Inr cur"
| "unmarshalString cur (JString s) = Inr s"
| "unmarshalString cur v = Inl UnmarshalTypeError"

text \<open>
  An object member is matched with a struct field by its key: the tag itself, or a
  spelling of it that differs in the case of its letters. \<open>foldName\<close> is the folding
  Go compares keys under, as far as it can meet a tag: ASCII letters in upper case, and
  the two letters outside ASCII that fold into ASCII, the long s (bytes C5 BF) and the
  Kelvin sign (bytes E2 84 AA). Other bytes are kept: the tags are ASCII, so no folding
  of a letter outside ASCII makes a key equal to one.
\<close>

definition upperASCII :: "char \<Rightarrow> char" where
  "upperASCII c =
     (if 97 \<le> (of_char c :: nat) \<and> (of_char c :: nat) \<le> 122
      then char_of ((of_char c :: nat) - 32) else c)"

fun foldName :: "string \<Rightarrow> string" where
  "foldName [] = []"
| "foldName (c # cs) =
     (if (of_char c :: nat) = 197 \<and> (case cs of d # _ \<Rightarrow> (of_char d :: nat) = 191 | [] \<Rightarrow> False)
      then CHR ''S'' # foldName (tl cs)
      else if (of_char c :: nat) = 226 \<and> map of_char (take 2 cs) = [132, 170 :: nat]
      then CHR ''K'' # foldName (drop 2 cs)
      else upperASCII c # foldName cs)"

definition keyIs :: "string \<Rightarrow> string \<Rightarrow> bool" where
  "keyIs key tag = (key = tag \<or> foldName key = foldName tag)"

text \<open>
  One member of a message object. Members whose key matches no field are skipped: this
  is where everything but name, role and content is dropped.
\<close>

definition unmarshalMessageField ::
    "tokenMessage \<Rightarrow> string \<times> json \<Rightarrow> json_error + tokenMessage" where
  "unmarshalMessageField msg kv =
     (if keyIs (fst kv) ''name'' then
        (case unmarshalString (Name msg) (snd kv) of
           Inl err \<Rightarrow> Inl err | Inr s \<Rightarrow> Inr (msg\<lparr>Name := s\<rparr>))
      else if keyIs (fst kv) ''role'' then
        (case unmarshalString (Role msg) (snd kv) of
           Inl err \<Rightarrow> Inl err | Inr s \<Rightarrow> Inr (msg\<lparr>Role := s\<rparr>))
      else if keyIs (fst kv) ''content'' then
        (case unmarshalString (Content msg) (snd kv) of
           Inl err \<Rightarrow> Inl err | Inr s \<Rightarrow> Inr (msg\<lparr>Content := s\<rparr>))
      else Inr msg)"

fun unmarshalMessageFields ::
    "tokenMessage \<Rightarrow> (string \<times> json) list \<Rightarrow> json_error + tokenMessage" where
  "unmarshalMessageFields msg [] = Inr msg"
| "unmarshalMessageFields msg (kv # kvs) =
     (case unmarshalMessageField msg kv of
        Inl err \<Rightarrow> Inl err
      | Inr msg' \<Rightarrow> unmarshalMessageFields msg' kvs)"

text \<open>
  An element of the array is decoded into the element the slice holds at its position,
  \<open>cur\<close>: null leaves it as it is, an object is decoded member by member on top of
  it, and every other value is a type error.
\<close>

fun unmarshalMessage :: "tokenMessage \<Rightarrow> json \<Rightarrow> json_error + tokenMessage" where
  "unmarshalMessage cur JNull = Inr cur"
| "unmarshalMessage cur (JObject kvs) = unmarshalMessageFields cur kvs"
| "unmarshalMessage cur v = Inl UnmarshalTypeError"

text \<open>
  The array, element by element. \<open>backing\<close> is what the slice's array holds from
  earlier decoding: the element at a position the array has is decoded on top of the one
  there, and past its end on top of the zero message, as in a slice that starts out nil.
\<close>

fun unmarshalMessages :: "tokenMessage list \<Rightarrow> json list \<Rightarrow> json_error + tokenMessage list" where
  "unmarshalMessages backing [] = Inr []"
| "unmarshalMessages backing (v # vs) =
     (case unmarshalMessage
             (case backing of [] \<Rightarrow> \<lparr>Name = [], Role = [], Content = []\<rparr> | cur # _ \<Rightarrow> cur) v of
        Inl err \<Rightarrow> Inl err
      | Inr msg \<Rightarrow>
          (case unmarshalMessages (tl backing) vs of
             Inl err \<Rightarrow> Inl err
           | Inr msgs \<Rightarrow> Inr (msg # msgs)))"

text \<open>
  The members of the request object. Only the key \<^verbatim>\<open>messages\<close> has a field: null
  sets the slice to nil, an array is decoded element by element, and every other value
  is a type error. \<^verbatim>\<open>json.Marshal\<close> writes the key once for a struct; where a document
  repeats it, Go decodes the later array into the slice the earlier one has filled. The
  slice is cut to the length of the later array, and its array keeps what lay beyond that
  (\<open>backing\<close>); an empty array and null give a slice with no array behind it.
\<close>

fun unmarshalRequestFields ::
    "tokenMessage list \<Rightarrow> tokenRequest \<Rightarrow> (string \<times> json) list \<Rightarrow> json_error + tokenRequest" where
  "unmarshalRequestFields backing to [] = Inr to"
| "unmarshalRequestFields backing to (kv # kvs) =
     (if keyIs (fst kv) ''messages'' then
        (case snd kv of
           JNull \<Rightarrow> unmarshalRequestFields [] (to\<lparr>Messages := []\<rparr>) kvs
         | JArray vs \<Rightarrow>
             (case unmarshalMessages backing vs of
                Inl err \<Rightarrow> Inl err
              | Inr msgs \<Rightarrow>
                  unmarshalRequestFields
                    (if msgs = [] then [] else msgs @ drop (length msgs) backing)
                    (to\<lparr>Messages := msgs\<rparr>) kvs)
         | _ \<Rightarrow> Inl UnmarshalTypeError)
      else unmarshalRequestFields backing to kvs)"

fun unmarshalRequest :: "json \<Rightarrow> json_error + tokenRequest" where
  "unmarshalRequest JNull = Inr \<lparr>Messages = []\<rparr>"
| "unmarshalRequest (JObject kvs) = unmarshalRequestFields [] \<lparr>Messages = []\<rparr> kvs"
| "unmarshalRequest v = Inl UnmarshalTypeError"

text \<open>
  \<^verbatim>\<open>toTokenRequest\<close>, lines 172 to 184. The request type
  \<^verbatim>\<open>db.CreateChatCompletionRequest\<close> is declared outside the file, so \<^verbatim>\<open>json.Marshal\<close>
  on it is the parameter \<open>Marshal\<close>, from a request to its document, \<open>None\<close> for an
  error. The argument is a request, not a pointer: the one caller has ruled nil out.
\<close>

definition toTokenRequest :: "('req \<Rightarrow> json option) \<Rightarrow> 'req \<Rightarrow> json_error + tokenRequest" where
  "toTokenRequest Marshal from =
     (case Marshal from of
        None \<Rightarrow> Inl MarshalError
      | Some data \<Rightarrow> unmarshalRequest data)"

subsection \<open>Counting\<close>

record fixedTokenCost =
  message :: int
  name :: int
  tools :: int
  toolParameters :: int
  toolParameterPropertyType :: int
  toolParameterPropertyDescription :: int
  toolParameterPropertyEnum :: int
  toolParameterPropertyEnumElement :: int

text \<open>The literal of lines 24 to 32; \<open>message\<close> and \<open>name\<close> start at Go's zero value.\<close>

definition fixedCost0 :: fixedTokenCost where
  "fixedCost0 =
     \<lparr>message = 0, name = 0, tools = 12, toolParameters = 11,
      toolParameterPropertyType = 2, toolParameterPropertyDescription = 2,
      toolParameterPropertyEnum = - 3, toolParameterPropertyEnumElement = 3\<rparr>"

text \<open>
  The errors \<^verbatim>\<open>countPromptTokens\<close> returns, named as the specification names them:
  \<^item> \<open>InvalidInput\<close>: \<^verbatim>\<open>nil request, can't count tokens\<close> (line 16);
  \<^item> \<open>TokenizerUnavailable model\<close>: \<^verbatim>\<open>failed to get encoding for model %s: %w\<close> (line 21);
  \<^item> \<open>UnsupportedModel model\<close>: \<^verbatim>\<open>token counting method for model %s is unknown\<close> (line 55);
  \<^item> \<open>NormalizationFailure err\<close>: \<^verbatim>\<open>failed to convert chat completion request to token
    counting request: %w\<close> (line 60).
\<close>

datatype error =
    InvalidInput
  | TokenizerUnavailable string
  | UnsupportedModel string
  | NormalizationFailure json_error

text \<open>The body of the loop over the messages, lines 70 to 76.\<close>

definition addMessage :: "fixedTokenCost \<Rightarrow> Tiktoken \<Rightarrow> int \<Rightarrow> tokenMessage \<Rightarrow> int" where
  "addMessage fixedCost tkm tokens msg =
     (let tokens1 = tokens + message fixedCost;
          tokens2 = foldl (\<lambda>t s. t + count tkm s) tokens1 [Content msg, Role msg, Name msg]
      in if Name msg \<noteq> [] then tokens2 + name fixedCost else tokens2)"

text \<open>
  Lines 58 to 126, what follows the switch: the request is converted, and the loop adds
  up the messages. The accounting of tool definitions is commented out in the source and
  is no part of the function.
\<close>

definition sumPromptTokens ::
    "fixedTokenCost \<Rightarrow> Tiktoken \<Rightarrow> ('req \<Rightarrow> json option) \<Rightarrow> 'req \<Rightarrow> int \<times> error option" where
  "sumPromptTokens fixedCost tkm Marshal cc =
     (case toTokenRequest Marshal cc of
        Inl err \<Rightarrow> (0, Some (NormalizationFailure err))
      | Inr req \<Rightarrow> (foldl (addMessage fixedCost tkm) 0 (Messages req), None))"

text \<open>
  \<^verbatim>\<open>countPromptTokens\<close>, lines 14 to 127. The pointer \<^verbatim>\<open>cc\<close> is an option, \<open>None\<close>
  for nil; the result is Go's pair of the count and the error, \<open>None\<close> for a nil error.
\<close>

function countPromptTokens ::
    "(string \<Rightarrow> Tiktoken option) \<Rightarrow> ('req \<Rightarrow> json option) \<Rightarrow> string \<Rightarrow> 'req option
      \<Rightarrow> int \<times> error option" where
  "countPromptTokens EncodingForModel Marshal model cc =
     (case cc of
        None \<Rightarrow> (0, Some InvalidInput)
      | Some req \<Rightarrow>
          (case EncodingForModel model of
             None \<Rightarrow> (0, Some (TokenizerUnavailable model))
           | Some tkm \<Rightarrow>
               (if model = ''gpt-3.5-turbo-0613'' \<or> model = ''gpt-3.5-turbo-16k-0613''
                   \<or> model = ''gpt-4-0314'' \<or> model = ''gpt-4-32k-0314''
                   \<or> model = ''gpt-4-0613'' \<or> model = ''gpt-4-32k-0613''
                then sumPromptTokens (fixedCost0\<lparr>message := 3, name := 1\<rparr>) tkm Marshal req
                else if model = ''gpt-3.5-turbo-0301''
                then sumPromptTokens (fixedCost0\<lparr>message := 4, name := - 1\<rparr>) tkm Marshal req
                else if Contains model ''gpt-3.5-turbo''
                then countPromptTokens EncodingForModel Marshal ''gpt-3.5-turbo-0613'' cc
                else if Contains model ''gpt-4''
                then countPromptTokens EncodingForModel Marshal ''gpt-4-0613'' cc
                else (0, Some (UnsupportedModel model)))))"
  by pat_completeness auto
termination
  by (relation "measure (\<lambda>(EncodingForModel, Marshal, model, cc).
        if model = ''gpt-3.5-turbo-0613'' \<or> model = ''gpt-4-0613'' then 0 else 1)") auto

declare countPromptTokens.simps [simp del]

text \<open>
  The same function with a bound on the depth of its recursion: each recursive call
  spends one unit of \<open>fuel\<close>, and the result is \<open>None\<close> when a call is due and none is
  left.
\<close>

fun countPromptTokensFuel ::
    "nat \<Rightarrow> (string \<Rightarrow> Tiktoken option) \<Rightarrow> ('req \<Rightarrow> json option) \<Rightarrow> string \<Rightarrow> 'req option
      \<Rightarrow> (int \<times> error option) option" where
  "countPromptTokensFuel fuel EncodingForModel Marshal model cc =
     (case cc of
        None \<Rightarrow> Some (0, Some InvalidInput)
      | Some req \<Rightarrow>
          (case EncodingForModel model of
             None \<Rightarrow> Some (0, Some (TokenizerUnavailable model))
           | Some tkm \<Rightarrow>
               (if model = ''gpt-3.5-turbo-0613'' \<or> model = ''gpt-3.5-turbo-16k-0613''
                   \<or> model = ''gpt-4-0314'' \<or> model = ''gpt-4-32k-0314''
                   \<or> model = ''gpt-4-0613'' \<or> model = ''gpt-4-32k-0613''
                then Some (sumPromptTokens (fixedCost0\<lparr>message := 3, name := 1\<rparr>) tkm Marshal req)
                else if model = ''gpt-3.5-turbo-0301''
                then Some (sumPromptTokens (fixedCost0\<lparr>message := 4, name := - 1\<rparr>) tkm Marshal req)
                else if Contains model ''gpt-3.5-turbo''
                then (case fuel of
                        0 \<Rightarrow> None
                      | Suc n \<Rightarrow> countPromptTokensFuel n EncodingForModel Marshal ''gpt-3.5-turbo-0613'' cc)
                else if Contains model ''gpt-4''
                then (case fuel of
                        0 \<Rightarrow> None
                      | Suc n \<Rightarrow> countPromptTokensFuel n EncodingForModel Marshal ''gpt-4-0613'' cc)
                else Some (0, Some (UnsupportedModel model)))))"

declare countPromptTokensFuel.simps [simp del]

subsection \<open>Notions the properties are stated with\<close>

text \<open>The labels of the switch, lines 34 to 42: the exact-match table.\<close>

definition exactModel :: "string \<Rightarrow> bool" where
  "exactModel model =
     (model = ''gpt-3.5-turbo-0613'' \<or> model = ''gpt-3.5-turbo-16k-0613''
      \<or> model = ''gpt-4-0314'' \<or> model = ''gpt-4-32k-0314''
      \<or> model = ''gpt-4-0613'' \<or> model = ''gpt-4-32k-0613''
      \<or> model = ''gpt-3.5-turbo-0301'')"

text \<open>
  The identifier whose tokenizer and fixed costs the count is made with: the model
  itself when the table has it, else the identifier the default branch recurses with,
  \<open>None\<close> when the default branch gives up.
\<close>

definition resolvedModel :: "string \<Rightarrow> string option" where
  "resolvedModel model =
     (if exactModel model then Some model
      else if Contains model ''gpt-3.5-turbo'' then Some ''gpt-3.5-turbo-0613''
      else if Contains model ''gpt-4'' then Some ''gpt-4-0613''
      else None)"

text \<open>The fixed costs the switch sets for an identifier of the table.\<close>

definition fixedCostOf :: "string \<Rightarrow> fixedTokenCost" where
  "fixedCostOf model =
     (if model = ''gpt-3.5-turbo-0301'' then fixedCost0\<lparr>message := 4, name := - 1\<rparr>
      else fixedCost0\<lparr>message := 3, name := 1\<rparr>)"

text \<open>
  What one message adds to the count, in the words of the specification: the fixed cost
  of a message, the token counts of its content, role and name, and the fixed cost of a
  name exactly when the name is not empty.
\<close>

definition messageCost :: "fixedTokenCost \<Rightarrow> Tiktoken \<Rightarrow> tokenMessage \<Rightarrow> int" where
  "messageCost fixedCost tkm msg =
     message fixedCost + count tkm (Content msg) + count tkm (Role msg) + count tkm (Name msg)
       + (if Name msg \<noteq> [] then name fixedCost else 0)"

subsection \<open>The request and its JSON form\<close>

text \<open>
  \<^verbatim>\<open>json.Marshal\<close> writes a Go string as a JSON string coerced to valid UTF-8: a byte
  at which no valid encoding starts is replaced by the replacement character U+FFFD
  (bytes EF BF BD), and \<^verbatim>\<open>json.Unmarshal\<close> reads the string back as written. The valid
  encodings are those of \<^verbatim>\<open>utf8.DecodeRuneInString\<close>: the first byte fixes how many
  bytes follow and the range each of them lies in.
\<close>

definition acceptRanges :: "nat \<Rightarrow> (nat \<times> nat) list option" where
  "acceptRanges b =
     (if b < 128 then Some []
      else if 194 \<le> b \<and> b \<le> 223 then Some [(128, 191)]
      else if b = 224 then Some [(160, 191), (128, 191)]
      else if (225 \<le> b \<and> b \<le> 236) \<or> b = 238 \<or> b = 239 then Some [(128, 191), (128, 191)]
      else if b = 237 then Some [(128, 159), (128, 191)]
      else if b = 240 then Some [(144, 191), (128, 191), (128, 191)]
      else if 241 \<le> b \<and> b \<le> 243 then Some [(128, 191), (128, 191), (128, 191)]
      else if b = 244 then Some [(128, 143), (128, 191), (128, 191)]
      else None)"

fun acceptBytes :: "(nat \<times> nat) list \<Rightarrow> string \<Rightarrow> bool" where
  "acceptBytes [] cs = True"
| "acceptBytes (r # rs) [] = False"
| "acceptBytes (r # rs) (c # cs) =
     (fst r \<le> (of_char c :: nat) \<and> (of_char c :: nat) \<le> snd r \<and> acceptBytes rs cs)"

definition RuneError :: string where
  "RuneError = [CHR 0xEF, CHR 0xBF, CHR 0xBD]"

fun coerceUTF8 :: "string \<Rightarrow> string" where
  "coerceUTF8 [] = []"
| "coerceUTF8 (c # cs) =
     (case acceptRanges (of_char c) of
        None \<Rightarrow> RuneError @ coerceUTF8 cs
      | Some rs \<Rightarrow>
          if acceptBytes rs cs
          then c # take (length rs) cs @ coerceUTF8 (drop (length rs) cs)
          else RuneError @ coerceUTF8 cs)"

text \<open>\<^verbatim>\<open>utf8.ValidString\<close>: the string is a sequence of valid encodings.\<close>

fun ValidString :: "string \<Rightarrow> bool" where
  "ValidString [] = True"
| "ValidString (c # cs) =
     (case acceptRanges (of_char c) of
        None \<Rightarrow> False
      | Some rs \<Rightarrow> acceptBytes rs cs \<and> ValidString (drop (length rs) cs))"

text \<open>
  Modelled from the spec: the request type \<^verbatim>\<open>db.CreateChatCompletionRequest\<close> and the
  type of its messages, which are declared in the package \<^verbatim>\<open>pkg/db\<close>, outside the
  file. The specification's data model: a request is an ordered sequence of messages,
  each with a role, an optional name and text content; a message may carry tool call
  payloads, and the request may carry tool definitions. Payloads and definitions are kept
  as the JSON they are written as.
\<close>

record ChatCompletionRequestMessage =
  msg_role :: string
  msg_name :: "string option"
  msg_content :: string
  msg_tool_calls :: "json list"

text \<open>
  Modelled from the spec: the request itself, \<^verbatim>\<open>db.CreateChatCompletionRequest\<close>, of
  which the specification names the messages and the tool definitions.
\<close>

record CreateChatCompletionRequest =
  req_messages :: "ChatCompletionRequestMessage list"
  req_tools :: "json list"

text \<open>
  Modelled from the spec: \<^verbatim>\<open>json.Marshal\<close> on that request, the serialization to the
  generic interchange format of the specification. Every field is written under its
  name, a name that is absent is left out, and the strings are coerced as above.
\<close>

definition marshalMessage :: "ChatCompletionRequestMessage \<Rightarrow> json" where
  "marshalMessage m =
     JObject
       ([(''role'', JString (coerceUTF8 (msg_role m))),
         (''content'', JString (coerceUTF8 (msg_content m)))]
        @ (case msg_name m of None \<Rightarrow> [] | Some n \<Rightarrow> [(''name'', JString (coerceUTF8 n))])
        @ [(''tool_calls'', JArray (msg_tool_calls m))])"

text \<open>
  Modelled from the spec: the document of the whole request, its messages and its tool
  definitions. Marshalling these fields has no error.
\<close>

definition marshalRequest :: "CreateChatCompletionRequest \<Rightarrow> json option" where
  "marshalRequest cc =
     Some (JObject
       [(''messages'', JArray (map marshalMessage (req_messages cc))),
        (''tools'', JArray (req_tools cc))])"

text \<open>
  Modelled from the spec: the projection of a request message down to its name, role
  and content, the normalized message of the specification's data model. A name that is
  absent is the empty string.
\<close>

definition projectMessage :: "ChatCompletionRequestMessage \<Rightarrow> tokenMessage" where
  "projectMessage m =
     \<lparr>Name = (case msg_name m of None \<Rightarrow> [] | Some n \<Rightarrow> n),
      Role = msg_role m, Content = msg_content m\<rparr>"

text \<open>The three strings of a message as JSON carries them.\<close>

definition coerceMessage :: "tokenMessage \<Rightarrow> tokenMessage" where
  "coerceMessage msg =
     \<lparr>Name = coerceUTF8 (Name msg), Role = coerceUTF8 (Role msg),
      Content = coerceUTF8 (Content msg)\<rparr>"

subsection \<open>Example inputs\<close>

text \<open>
  A tokenizer and a table of encodings to evaluate the functions with. \<open>byteTokens\<close>
  makes one token of every byte. \<open>exampleEncodings\<close> finds an encoding the way the
  library does, by the model's full name or by a prefix of it, and fails for every
  other name.
\<close>

definition byteTokens :: Tiktoken where
  "byteTokens s = map of_char s"

definition exampleEncodings :: "string \<Rightarrow> Tiktoken option" where
  "exampleEncodings model =
     (if model = ''gpt-4'' \<or> model = ''gpt-3.5-turbo'' \<or> model = ''text-davinci-003''
         \<or> take 6 model = ''gpt-4-'' \<or> take 14 model = ''gpt-3.5-turbo-''
      then Some byteTokens else None)"

definition userMessage :: "string \<Rightarrow> string option \<Rightarrow> ChatCompletionRequestMessage" where
  "userMessage body nm =
     \<lparr>msg_role = ''user'', msg_name = nm, msg_content = body, msg_tool_calls = []\<rparr>"

definition exampleRequest :: "ChatCompletionRequestMessage list \<Rightarrow> CreateChatCompletionRequest" where
  "exampleRequest msgs = \<lparr>req_messages = msgs, req_tools = []\<rparr>"

section \<open>Properties\<close>

subsection \<open>The substring test\<close>

lemma Contains_iff: "Contains s sub \<longleftrightarrow> (\<exists>pre post. s = pre @ sub @ post)"
proof (induction s)
  case Nil
  then show ?case by auto
next
  case (Cons c s)
  show ?case
  proof
    assume "Contains (c # s) sub"
    then consider "take (length sub) (c # s) = sub" | "Contains s sub" by auto
    then show "\<exists>pre post. c # s = pre @ sub @ post"
    proof cases
      case 1
      then have "c # s = [] @ sub @ drop (length sub) (c # s)"
        by (metis append_Nil append_take_drop_id)
      then show ?thesis by blast
    next
      case 2
      then obtain pre post where "s = pre @ sub @ post" using Cons.IH by blast
      then have "c # s = (c # pre) @ sub @ post" by simp
      then show ?thesis by blast
    qed
  next
    assume "\<exists>pre post. c # s = pre @ sub @ post"
    then obtain pre post where eq: "c # s = pre @ sub @ post" by blast
    show "Contains (c # s) sub"
    proof (cases pre)
      case Nil
      with eq have "take (length sub) (c # s) = sub" by simp
      then show ?thesis by simp
    next
      case (Cons a pre')
      with eq have "s = pre' @ sub @ post" by simp
      then have "Contains s sub" using Cons.IH by blast
      then show ?thesis by simp
    qed
  qed
qed

subsection \<open>The count, case by case\<close>

lemma exactModel_canonical [simp]:
  "exactModel ''gpt-3.5-turbo-0613''" "exactModel ''gpt-4-0613''"
  by (simp_all add: exactModel_def)

lemma foldl_count: "foldl (\<lambda>t s. t + count tkm s) acc ss = acc + sum_list (map (count tkm) ss)"
  by (induction ss arbitrary: acc) simp_all

lemma addMessage_messageCost: "addMessage fixedCost tkm tokens msg = tokens + messageCost fixedCost tkm msg"
  by (simp add: addMessage_def messageCost_def Let_def)

lemma foldl_addMessage:
  "foldl (addMessage fixedCost tkm) tokens msgs = tokens + sum_list (map (messageCost fixedCost tkm) msgs)"
  by (induction msgs arbitrary: tokens) (simp_all add: addMessage_messageCost)

lemma sumPromptTokens_Inr:
  "toTokenRequest Marshal cc = Inr req \<Longrightarrow>
   sumPromptTokens fixedCost tkm Marshal cc = (sum_list (map (messageCost fixedCost tkm) (Messages req)), None)"
  by (simp add: sumPromptTokens_def foldl_addMessage)

lemma sumPromptTokens_Inl:
  "toTokenRequest Marshal cc = Inl err \<Longrightarrow>
   sumPromptTokens fixedCost tkm Marshal cc = (0, Some (NormalizationFailure err))"
  by (simp add: sumPromptTokens_def)

lemma countPromptTokens_nil: "countPromptTokens E M model None = (0, Some InvalidInput)"
  by (subst countPromptTokens.simps) simp

lemma countPromptTokens_exact:
  "exactModel model \<Longrightarrow>
   countPromptTokens E M model (Some req) =
     (case E model of
        None \<Rightarrow> (0, Some (TokenizerUnavailable model))
      | Some tkm \<Rightarrow> sumPromptTokens (fixedCostOf model) tkm M req)"
  by (subst countPromptTokens.simps) (auto simp: exactModel_def fixedCostOf_def split: option.splits)

lemma countPromptTokens_default:
  "\<not> exactModel model \<Longrightarrow>
   countPromptTokens E M model (Some req) =
     (case E model of
        None \<Rightarrow> (0, Some (TokenizerUnavailable model))
      | Some tkm \<Rightarrow>
          (if Contains model ''gpt-3.5-turbo''
           then countPromptTokens E M ''gpt-3.5-turbo-0613'' (Some req)
           else if Contains model ''gpt-4''
           then countPromptTokens E M ''gpt-4-0613'' (Some req)
           else (0, Some (UnsupportedModel model))))"
  by (subst countPromptTokens.simps) (auto simp: exactModel_def split: option.splits)

lemma resolvedModel_exact: "resolvedModel model = Some m \<Longrightarrow> exactModel m"
  by (auto simp: resolvedModel_def split: if_splits)

lemma countPromptTokens_resolved:
  "countPromptTokens E M model (Some req) =
     (case E model of
        None \<Rightarrow> (0, Some (TokenizerUnavailable model))
      | Some tkm0 \<Rightarrow>
          (case resolvedModel model of
             None \<Rightarrow> (0, Some (UnsupportedModel model))
           | Some m \<Rightarrow>
               (case E m of
                  None \<Rightarrow> (0, Some (TokenizerUnavailable m))
                | Some tkm \<Rightarrow> sumPromptTokens (fixedCostOf m) tkm M req)))"
proof (cases "exactModel model")
  case True
  then show ?thesis
    by (simp add: countPromptTokens_exact resolvedModel_def split: option.splits)
next
  case False
  then show ?thesis
    by (simp add: countPromptTokens_default countPromptTokens_exact resolvedModel_def
          split: option.splits)
qed

subsection \<open>The round trip through JSON\<close>

lemma keyIs_literals [simp]:
  "keyIs ''role'' ''name'' = False" "keyIs ''role'' ''role'' = True"
  "keyIs ''content'' ''name'' = False" "keyIs ''content'' ''role'' = False"
  "keyIs ''content'' ''content'' = True"
  "keyIs ''name'' ''name'' = True"
  "keyIs ''tool_calls'' ''name'' = False" "keyIs ''tool_calls'' ''role'' = False"
  "keyIs ''tool_calls'' ''content'' = False"
  "keyIs ''messages'' ''messages'' = True" "keyIs ''tools'' ''messages'' = False"
  by (simp_all add: keyIs_def upperASCII_def)

lemma unmarshalMessage_marshalMessage:
  "unmarshalMessage \<lparr>Name = [], Role = [], Content = []\<rparr> (marshalMessage m) =
     Inr (coerceMessage (projectMessage m))"
  by (cases "msg_name m")
     (simp_all add: marshalMessage_def unmarshalMessageField_def coerceMessage_def projectMessage_def)

lemma unmarshalMessages_marshalMessage:
  "unmarshalMessages [] (map marshalMessage ms) =
     Inr (map (\<lambda>m. coerceMessage (projectMessage m)) ms)"
  by (induction ms) (simp_all add: unmarshalMessage_marshalMessage)

lemma toTokenRequest_marshalRequest:
  "toTokenRequest marshalRequest cc =
     Inr \<lparr>Messages = map (\<lambda>m. coerceMessage (projectMessage m)) (req_messages cc)\<rparr>"
  by (simp add: toTokenRequest_def marshalRequest_def unmarshalMessages_marshalMessage)

lemma coerceUTF8_ValidString: "ValidString s \<Longrightarrow> coerceUTF8 s = s"
proof (induction s rule: coerceUTF8.induct)
  case 1
  then show ?case by simp
next
  case (2 c cs)
  from "2.prems" obtain rs where rs: "acceptRanges (of_char c) = Some rs"
    and acc: "acceptBytes rs cs" and rest: "ValidString (drop (length rs) cs)"
    by (auto split: option.splits)
  from "2.IH"(2)[OF rs acc rest] have "coerceUTF8 (drop (length rs) cs) = drop (length rs) cs" .
  with rs acc show ?case by simp
qed

lemma ValidString_ascii: "\<forall>c \<in> set s. (of_char c :: nat) < 128 \<Longrightarrow> ValidString s"
  by (induction s) (simp_all add: acceptRanges_def)

subsection \<open>The example inputs\<close>

lemma exampleEncodings_simps [simp]:
  "exampleEncodings ''gpt-3.5-turbo-0613'' = Some byteTokens"
  "exampleEncodings ''gpt-3.5-turbo-0301'' = Some byteTokens"
  "exampleEncodings ''gpt-4-0613'' = Some byteTokens"
  "exampleEncodings ''gpt-4'' = Some byteTokens"
  "exampleEncodings ''totally-unknown-model'' = None"
  "exampleEncodings ''my-gpt-4'' = None"
  "exampleEncodings ''text-davinci-003'' = Some byteTokens"
  by (simp_all add: exampleEncodings_def)

lemma fixedCostOf_fields [simp]:
  "message (fixedCostOf ''gpt-3.5-turbo-0301'') = 4"
  "name (fixedCostOf ''gpt-3.5-turbo-0301'') = - 1"
  "model \<noteq> ''gpt-3.5-turbo-0301'' \<Longrightarrow> message (fixedCostOf model) = 3"
  "model \<noteq> ''gpt-3.5-turbo-0301'' \<Longrightarrow> name (fixedCostOf model) = 1"
  by (simp_all add: fixedCostOf_def fixedCost0_def)

lemma toTokenRequest_example:
  "toTokenRequest marshalRequest (exampleRequest [userMessage ''hi'' None]) =
     Inr \<lparr>Messages = [\<lparr>Name = [], Role = ''user'', Content = ''hi''\<rparr>]\<rparr>"
  "toTokenRequest marshalRequest (exampleRequest [userMessage ''hi'' (Some ''a'')]) =
     Inr \<lparr>Messages = [\<lparr>Name = ''a'', Role = ''user'', Content = ''hi''\<rparr>]\<rparr>"
  "toTokenRequest marshalRequest (exampleRequest []) = Inr \<lparr>Messages = []\<rparr>"
  by (simp_all add: toTokenRequest_marshalRequest exampleRequest_def userMessage_def
        coerceMessage_def projectMessage_def acceptRanges_def)

subsection \<open>The count is the sum over the normalized messages\<close>

text \<open>
  Claim C1. For a model that the function supports (a tokenizer is found for the model
  string, the switch resolves the string to an identifier \<open>m\<close> of its table, and a
  tokenizer is found for \<open>m\<close>) and a request that is not nil and normalizes to \<open>req\<close>,
  the result is, with no error, the sum over the normalized messages, in order, of the
  fixed cost of a message plus the token counts of content, role and name, plus the
  fixed cost of a name exactly when the name is not empty (\<open>messageCost\<close>). For the one
  message with role \<^verbatim>\<open>user\<close>, content \<^verbatim>\<open>hello\<close> and no name under
  \<^verbatim>\<open>gpt-3.5-turbo-0613\<close>, and a tokenizer that makes no token of the empty string, that
  is 3 plus the tokens of \<^verbatim>\<open>hello\<close> plus the tokens of \<^verbatim>\<open>user\<close> plus 0; and a
  message whose three strings are empty costs the fixed cost of a message.
\<close>

theorem countPromptTokens_sum:
  assumes "EncodingForModel model \<noteq> None"
    and "resolvedModel model = Some m"
    and "EncodingForModel m = Some tkm"
    and "toTokenRequest Marshal cc = Inr req"
  shows "countPromptTokens EncodingForModel Marshal model (Some cc) =
           (sum_list (map (messageCost (fixedCostOf m) tkm) (Messages req)), None)
         \<and> (model = ''gpt-3.5-turbo-0613''
              \<and> Messages req = [\<lparr>Name = [], Role = ''user'', Content = ''hello''\<rparr>]
              \<and> tkm [] = []
            \<longrightarrow> countPromptTokens EncodingForModel Marshal model (Some cc) =
                  (3 + count tkm ''hello'' + count tkm ''user'' + 0, None))
         \<and> (tkm [] = [] \<longrightarrow>
              messageCost (fixedCostOf m) tkm \<lparr>Name = [], Role = [], Content = []\<rparr>
                = message (fixedCostOf m))"
proof -
  have main: "countPromptTokens EncodingForModel Marshal model (Some cc) =
           (sum_list (map (messageCost (fixedCostOf m) tkm) (Messages req)), None)"
    using assms by (auto simp: countPromptTokens_resolved sumPromptTokens_Inr)
  have ex: "countPromptTokens EncodingForModel Marshal model (Some cc) =
                  (3 + count tkm ''hello'' + count tkm ''user'' + 0, None)"
    if "model = ''gpt-3.5-turbo-0613''"
      and "Messages req = [\<lparr>Name = [], Role = ''user'', Content = ''hello''\<rparr>]"
      and "tkm [] = []"
  proof -
    from that(1) assms(2) have "m = ''gpt-3.5-turbo-0613''"
      by (simp add: resolvedModel_def)
    with main that(2,3) show ?thesis
      by (simp add: messageCost_def count_def)
  qed
  have empty: "messageCost (fixedCostOf m) tkm \<lparr>Name = [], Role = [], Content = []\<rparr>
                = message (fixedCostOf m)" if "tkm [] = []"
    using that by (simp add: messageCost_def count_def)
  from main ex empty show ?thesis by blast
qed

theorem countPromptTokens_sum_witness:
  "countPromptTokens exampleEncodings marshalRequest ''gpt-3.5-turbo-0613''
     (Some (exampleRequest [userMessage ''hello'' None])) = (12, None)"
proof -
  have a: "exampleEncodings ''gpt-3.5-turbo-0613'' \<noteq> None" by simp
  have b: "resolvedModel ''gpt-3.5-turbo-0613'' = Some ''gpt-3.5-turbo-0613''"
    by (simp add: resolvedModel_def)
  have c: "exampleEncodings ''gpt-3.5-turbo-0613'' = Some byteTokens" by simp
  have d: "toTokenRequest marshalRequest (exampleRequest [userMessage ''hello'' None]) =
      Inr \<lparr>Messages = [\<lparr>Name = [], Role = ''user'', Content = ''hello''\<rparr>]\<rparr>"
    by (simp add: toTokenRequest_marshalRequest exampleRequest_def userMessage_def
          coerceMessage_def projectMessage_def acceptRanges_def)
  have e: "byteTokens [] = []" by (simp add: byteTokens_def)
  from countPromptTokens_sum [where EncodingForModel = exampleEncodings and model = "''gpt-3.5-turbo-0613''", OF a b c d] e show ?thesis
    by (simp add: count_def byteTokens_def messageCost_def)
qed

subsection \<open>Model strings outside the table\<close>

text \<open>
  Claim C2, as stated, fails: a model string outside the table that contains
  \<^verbatim>\<open>gpt-4\<close> need not give the result of \<^verbatim>\<open>gpt-4-0613\<close>. The tokenizer is looked up
  for the string as given before the switch, so a string the tokenizer library does not
  know ends in an error, whatever the request counts to under \<^verbatim>\<open>gpt-4-0613\<close>.
\<close>

theorem alias_counterexample:
  "\<not> exactModel ''my-gpt-4'' \<and> Contains ''my-gpt-4'' ''gpt-4''
   \<and> \<not> Contains ''my-gpt-4'' ''gpt-3.5-turbo''
   \<and> countPromptTokens exampleEncodings marshalRequest ''my-gpt-4''
         (Some (exampleRequest [userMessage ''hi'' None]))
       = (0, Some (TokenizerUnavailable ''my-gpt-4''))
   \<and> countPromptTokens exampleEncodings marshalRequest ''gpt-4-0613''
         (Some (exampleRequest [userMessage ''hi'' None]))
       = (9, None)"
  by (simp add: exactModel_def countPromptTokens_resolved resolvedModel_def
        sumPromptTokens_Inr toTokenRequest_example messageCost_def count_def byteTokens_def)

text \<open>
  Claim C2, amended. When the request is nil, or a tokenizer is found for the model
  string as given, a string outside the table that contains \<^verbatim>\<open>gpt-3.5-turbo\<close> gives
  the result of \<^verbatim>\<open>gpt-3.5-turbo-0613\<close>, and one that contains \<^verbatim>\<open>gpt-4\<close> and not
  \<^verbatim>\<open>gpt-3.5-turbo\<close> gives the result of \<^verbatim>\<open>gpt-4-0613\<close>. The first test comes first: a
  string with both substrings goes with \<^verbatim>\<open>gpt-3.5-turbo-0613\<close>. The tests compare
  bytes, so they are case-sensitive. When the request is not nil and no tokenizer is
  found for the string as given, the count is 0 and the error is \<open>TokenizerUnavailable\<close>
  naming that string.
\<close>

theorem alias_same_result:
  assumes "\<not> exactModel model"
  shows "(cc = None \<or> EncodingForModel model \<noteq> None \<longrightarrow>
            (Contains model ''gpt-3.5-turbo'' \<longrightarrow>
               countPromptTokens EncodingForModel Marshal model cc =
               countPromptTokens EncodingForModel Marshal ''gpt-3.5-turbo-0613'' cc)
            \<and> (\<not> Contains model ''gpt-3.5-turbo'' \<and> Contains model ''gpt-4'' \<longrightarrow>
               countPromptTokens EncodingForModel Marshal model cc =
               countPromptTokens EncodingForModel Marshal ''gpt-4-0613'' cc))
         \<and> (cc \<noteq> None \<and> EncodingForModel model = None \<longrightarrow>
            countPromptTokens EncodingForModel Marshal model cc =
            (0, Some (TokenizerUnavailable model)))
         \<and> (\<forall>s. Contains model s \<longleftrightarrow> (\<exists>pre post. model = pre @ s @ post))"
proof (cases cc)
  case None
  then show ?thesis by (simp add: countPromptTokens_nil Contains_iff)
next
  case (Some req)
  show ?thesis
  proof (cases "EncodingForModel model")
    case None
    with Some show ?thesis by (simp add: countPromptTokens_resolved Contains_iff)
  next
    case tk: (Some tkm)
    with Some assms show ?thesis
      by (simp add: countPromptTokens_default Contains_iff)
  qed
qed

theorem alias_same_result_witness:
  "\<not> exactModel ''gpt-4'' \<and> exampleEncodings ''gpt-4'' \<noteq> None
   \<and> countPromptTokens exampleEncodings marshalRequest ''gpt-4''
        (Some (exampleRequest [userMessage ''hello'' None]))
     = countPromptTokens exampleEncodings marshalRequest ''gpt-4-0613''
        (Some (exampleRequest [userMessage ''hello'' None]))
   \<and> \<not> exactModel ''gpt-4-gpt-3.5-turbo'' \<and> exampleEncodings ''gpt-4-gpt-3.5-turbo'' \<noteq> None
   \<and> countPromptTokens exampleEncodings marshalRequest ''gpt-4-gpt-3.5-turbo''
        (Some (exampleRequest [userMessage ''hello'' None]))
     = countPromptTokens exampleEncodings marshalRequest ''gpt-3.5-turbo-0613''
        (Some (exampleRequest [userMessage ''hello'' None]))
   \<and> \<not> exactModel ''x-gpt-3.5-turbo'' \<and> exampleEncodings ''x-gpt-3.5-turbo'' = None
   \<and> countPromptTokens exampleEncodings marshalRequest ''x-gpt-3.5-turbo''
        (Some (exampleRequest [userMessage ''hello'' None]))
     = (0, Some (TokenizerUnavailable ''x-gpt-3.5-turbo''))
   \<and> \<not> Contains ''GPT-4'' ''gpt-4''"
proof -
  have a: "\<not> exactModel ''gpt-4''" by (simp add: exactModel_def)
  have a'': "\<not> exactModel ''x-gpt-3.5-turbo''" by (simp add: exactModel_def)
  have b'': "exampleEncodings ''x-gpt-3.5-turbo'' = None" by (simp add: exampleEncodings_def)
  from alias_same_result [where EncodingForModel = exampleEncodings and model = "''x-gpt-3.5-turbo''"
        and cc = "Some (exampleRequest [userMessage ''hello'' None])" and Marshal = marshalRequest, OF a''] b''
  have 3: "countPromptTokens exampleEncodings marshalRequest ''x-gpt-3.5-turbo''
        (Some (exampleRequest [userMessage ''hello'' None]))
     = (0, Some (TokenizerUnavailable ''x-gpt-3.5-turbo''))" by simp
  have b: "exampleEncodings ''gpt-4'' \<noteq> None" by simp
  have c: "Contains ''gpt-4'' ''gpt-4''" "\<not> Contains ''gpt-4'' ''gpt-3.5-turbo''" by simp_all
  have a': "\<not> exactModel ''gpt-4-gpt-3.5-turbo''" by (simp add: exactModel_def)
  have b': "exampleEncodings ''gpt-4-gpt-3.5-turbo'' \<noteq> None" by (simp add: exampleEncodings_def)
  have c': "Contains ''gpt-4-gpt-3.5-turbo'' ''gpt-3.5-turbo''" by simp
  have d: "\<not> Contains ''GPT-4'' ''gpt-4''" by simp
  from alias_same_result [where EncodingForModel = exampleEncodings and model = "''gpt-4''"
        and cc = "Some (exampleRequest [userMessage ''hello'' None])" and Marshal = marshalRequest, OF a] b c
  have 1: "countPromptTokens exampleEncodings marshalRequest ''gpt-4''
        (Some (exampleRequest [userMessage ''hello'' None]))
     = countPromptTokens exampleEncodings marshalRequest ''gpt-4-0613''
        (Some (exampleRequest [userMessage ''hello'' None]))" by blast
  from alias_same_result [where EncodingForModel = exampleEncodings and model = "''gpt-4-gpt-3.5-turbo''"
        and cc = "Some (exampleRequest [userMessage ''hello'' None])" and Marshal = marshalRequest, OF a'] b' c'
  have 2: "countPromptTokens exampleEncodings marshalRequest ''gpt-4-gpt-3.5-turbo''
        (Some (exampleRequest [userMessage ''hello'' None]))
     = countPromptTokens exampleEncodings marshalRequest ''gpt-3.5-turbo-0613''
        (Some (exampleRequest [userMessage ''hello'' None]))" by blast
  from a b a' b' a'' b'' d 1 2 3 show ?thesis by blast
qed

text \<open>
  Claim C3, as stated, fails: for the model \<^verbatim>\<open>totally-unknown-model\<close> the error is
  not the one of the switch when no tokenizer is found for that string, as with a table
  of encodings that knows models by name and prefix.
\<close>

theorem unknown_model_counterexample:
  "countPromptTokens exampleEncodings marshalRequest ''totally-unknown-model''
      (Some (exampleRequest [])) = (0, Some (TokenizerUnavailable ''totally-unknown-model''))
   \<and> snd (countPromptTokens exampleEncodings marshalRequest ''totally-unknown-model''
      (Some (exampleRequest []))) \<noteq> Some (UnsupportedModel ''totally-unknown-model'')"
  by (simp add: countPromptTokens_resolved)

text \<open>
  Claim C3, amended. For the model \<^verbatim>\<open>totally-unknown-model\<close> and a request that is
  not nil the count is 0 and the error names the model: it is \<open>TokenizerUnavailable\<close>
  when no tokenizer is found for the string, and \<open>UnsupportedModel\<close> otherwise.
\<close>

theorem unknown_model_error:
  "countPromptTokens EncodingForModel Marshal ''totally-unknown-model'' (Some cc) =
     (0, Some (if EncodingForModel ''totally-unknown-model'' = None
               then TokenizerUnavailable ''totally-unknown-model''
               else UnsupportedModel ''totally-unknown-model''))"
  by (simp add: countPromptTokens_resolved resolvedModel_def exactModel_def split: option.splits)

theorem unknown_model_error_witness:
  "countPromptTokens (\<lambda>model. Some byteTokens) marshalRequest ''totally-unknown-model''
      (Some (exampleRequest [])) = (0, Some (UnsupportedModel ''totally-unknown-model''))"
  using unknown_model_error [of "\<lambda>model. Some byteTokens" marshalRequest "exampleRequest []"]
  by simp

subsection \<open>A name under the 0301 profile\<close>

text \<open>
  Claim C4, as stated, fails: under \<^verbatim>\<open>gpt-3.5-turbo-0301\<close>, giving a message the name
  \<^verbatim>\<open>a\<close> does not lower the count by 1. The tokens of the name are counted too: with
  one token for the name the count stays as it was.
\<close>

theorem name_0301_counterexample:
  "countPromptTokens exampleEncodings marshalRequest ''gpt-3.5-turbo-0301''
     (Some (exampleRequest [userMessage ''hi'' None])) = (10, None)
   \<and> countPromptTokens exampleEncodings marshalRequest ''gpt-3.5-turbo-0301''
     (Some (exampleRequest [userMessage ''hi'' (Some ''a'')])) = (10, None)"
  by (simp add: countPromptTokens_resolved resolvedModel_def exactModel_def
        sumPromptTokens_Inr toTokenRequest_example messageCost_def count_def byteTokens_def)

text \<open>
  Claim C4, amended. Under \<^verbatim>\<open>gpt-3.5-turbo-0301\<close>, changing the name of one message
  from empty to a string that is not empty, role and content and the other messages
  held fixed, changes the count by the tokens of the name, less the tokens of the empty
  string, less 1: the fixed part of the count goes down by 1.
\<close>

theorem name_0301_delta:
  assumes "EncodingForModel ''gpt-3.5-turbo-0301'' = Some tkm"
    and "toTokenRequest Marshal cc = Inr \<lparr>Messages = pre @ [msg\<lparr>Name := []\<rparr>] @ post\<rparr>"
    and "toTokenRequest Marshal cc' = Inr \<lparr>Messages = pre @ [msg\<lparr>Name := nm\<rparr>] @ post\<rparr>"
    and "nm \<noteq> []"
  shows "fst (countPromptTokens EncodingForModel Marshal ''gpt-3.5-turbo-0301'' (Some cc')) =
         fst (countPromptTokens EncodingForModel Marshal ''gpt-3.5-turbo-0301'' (Some cc))
           - 1 + count tkm nm - count tkm []"
  using assms
  by (simp add: countPromptTokens_resolved resolvedModel_def exactModel_def
        sumPromptTokens_Inr messageCost_def)

theorem name_0301_delta_witness:
  "fst (countPromptTokens exampleEncodings marshalRequest ''gpt-3.5-turbo-0301''
          (Some (exampleRequest [userMessage ''hi'' (Some ''a'')]))) =
   fst (countPromptTokens exampleEncodings marshalRequest ''gpt-3.5-turbo-0301''
          (Some (exampleRequest [userMessage ''hi'' None]))) - 1 + 1 - 0"
proof -
  have a: "exampleEncodings ''gpt-3.5-turbo-0301'' = Some byteTokens" by simp
  have b: "toTokenRequest marshalRequest (exampleRequest [userMessage ''hi'' None]) =
      Inr \<lparr>Messages = [] @ [\<lparr>Name = [], Role = ''user'', Content = ''hi''\<rparr>\<lparr>Name := []\<rparr>] @ []\<rparr>"
    by (simp add: toTokenRequest_example)
  have c: "toTokenRequest marshalRequest (exampleRequest [userMessage ''hi'' (Some ''a'')]) =
      Inr \<lparr>Messages = [] @ [\<lparr>Name = [], Role = ''user'', Content = ''hi''\<rparr>\<lparr>Name := ''a''\<rparr>] @ []\<rparr>"
    by (simp add: toTokenRequest_example)
  have d: "''a'' \<noteq> []" by simp
  from name_0301_delta [where EncodingForModel = exampleEncodings, OF a b c d]
  show ?thesis by (simp add: count_def byteTokens_def)
qed

subsection \<open>The errors\<close>

text \<open>
  Claim C5. The function returns an error exactly when the request is nil, no tokenizer
  is found for the model string or for the identifier it resolves to, the model resolves
  to nothing, or the request does not normalize. With an error the count is 0. The
  error is \<open>InvalidInput\<close> exactly for a nil request, whatever the model;
  \<open>TokenizerUnavailable\<close> names the string the tokenizer was not found for;
  \<open>UnsupportedModel\<close> names a model that has a tokenizer and resolves to nothing; and
  \<open>NormalizationFailure\<close> carries the error of a conversion that was reached.
\<close>

theorem error_cases:
  "(snd (countPromptTokens EncodingForModel Marshal model cc) \<noteq> None \<longleftrightarrow>
      cc = None \<or> EncodingForModel model = None \<or> resolvedModel model = None
      \<or> (\<exists>m. resolvedModel model = Some m \<and> EncodingForModel m = None)
      \<or> (\<exists>req err. cc = Some req \<and> toTokenRequest Marshal req = Inl err))
   \<and> (snd (countPromptTokens EncodingForModel Marshal model cc) \<noteq> None \<longrightarrow>
        fst (countPromptTokens EncodingForModel Marshal model cc) = 0)
   \<and> (snd (countPromptTokens EncodingForModel Marshal model cc) = Some InvalidInput \<longleftrightarrow> cc = None)
   \<and> (cc = None \<longrightarrow> countPromptTokens EncodingForModel Marshal model cc = (0, Some InvalidInput))
   \<and> (\<forall>m. snd (countPromptTokens EncodingForModel Marshal model cc) = Some (TokenizerUnavailable m) \<longleftrightarrow>
        cc \<noteq> None \<and> EncodingForModel m = None
        \<and> (m = model \<or> EncodingForModel model \<noteq> None \<and> resolvedModel model = Some m))
   \<and> (\<forall>m. snd (countPromptTokens EncodingForModel Marshal model cc) = Some (UnsupportedModel m) \<longleftrightarrow>
        cc \<noteq> None \<and> m = model \<and> EncodingForModel model \<noteq> None \<and> resolvedModel model = None)
   \<and> (\<forall>err. snd (countPromptTokens EncodingForModel Marshal model cc) = Some (NormalizationFailure err) \<longleftrightarrow>
        (\<exists>req m. cc = Some req \<and> EncodingForModel model \<noteq> None \<and> resolvedModel model = Some m
           \<and> EncodingForModel m \<noteq> None \<and> toTokenRequest Marshal req = Inl err))"
proof (cases cc)
  case None
  then show ?thesis by (simp add: countPromptTokens_nil)
next
  case (Some req)
  show ?thesis
  proof (cases "EncodingForModel model")
    case None
    with Some show ?thesis by (auto simp: countPromptTokens_resolved)
  next
    case tk0: (Some tkm0)
    show ?thesis
    proof (cases "resolvedModel model")
      case None
      with Some tk0 show ?thesis by (auto simp: countPromptTokens_resolved)
    next
      case rm: (Some m)
      show ?thesis
      proof (cases "EncodingForModel m")
        case None
        with Some tk0 rm show ?thesis by (auto simp: countPromptTokens_resolved)
      next
        case tk: (Some tkm)
        show ?thesis
        proof (cases "toTokenRequest Marshal req")
          case (Inl err)
          with Some tk0 rm tk show ?thesis
            by (auto simp: countPromptTokens_resolved sumPromptTokens_Inl)
        next
          case (Inr treq)
          with Some tk0 rm tk show ?thesis
            by (auto simp: countPromptTokens_resolved sumPromptTokens_Inr)
        qed
      qed
    qed
  qed
qed

theorem error_cases_witness:
  "snd (countPromptTokens exampleEncodings marshalRequest ''gpt-4''
          (None :: CreateChatCompletionRequest option)) = Some InvalidInput
   \<and> fst (countPromptTokens exampleEncodings marshalRequest ''gpt-4''
          (None :: CreateChatCompletionRequest option)) = 0
   \<and> snd (countPromptTokens exampleEncodings marshalRequest ''gpt-4''
          (Some (exampleRequest []))) = None"
proof -
  have a: "exampleEncodings ''gpt-4'' \<noteq> None" "exampleEncodings ''gpt-4-0613'' \<noteq> None" by simp_all
  have b: "resolvedModel ''gpt-4'' = Some ''gpt-4-0613''"
    by (simp add: resolvedModel_def exactModel_def)
  have c: "toTokenRequest marshalRequest (exampleRequest []) = Inr \<lparr>Messages = []\<rparr>"
    by (simp add: toTokenRequest_example)
  from error_cases [of exampleEncodings marshalRequest "''gpt-4''" "None"]
  have 1: "snd (countPromptTokens exampleEncodings marshalRequest ''gpt-4''
          (None :: CreateChatCompletionRequest option)) = Some InvalidInput
   \<and> fst (countPromptTokens exampleEncodings marshalRequest ''gpt-4''
          (None :: CreateChatCompletionRequest option)) = 0" by simp
  from error_cases [of exampleEncodings marshalRequest "''gpt-4''" "Some (exampleRequest [])"] a b c
  have 2: "snd (countPromptTokens exampleEncodings marshalRequest ''gpt-4''
          (Some (exampleRequest []))) = None" by simp
  from 1 2 show ?thesis by blast
qed

subsection \<open>What the count depends on\<close>

lemma countPromptTokens_cong_request:
  "toTokenRequest Marshal cc1 = toTokenRequest Marshal cc2 \<Longrightarrow>
   countPromptTokens EncodingForModel Marshal model (Some cc1) =
   countPromptTokens EncodingForModel Marshal model (Some cc2)"
  by (simp add: countPromptTokens_resolved sumPromptTokens_def split: option.splits)

text \<open>
  Claim C6. Tool definitions add nothing to the count: two requests that normalize to
  the same result give the same count and error. For the request type of the
  specification: requests whose messages have the same name, role and content give the
  same result, whatever their tool definitions and tool call payloads, and replacing the
  tool definitions of a request changes nothing.
\<close>

theorem tools_not_counted:
  "(toTokenRequest Marshal cc1 = toTokenRequest Marshal cc2 \<longrightarrow>
      countPromptTokens EncodingForModel Marshal model (Some cc1) =
      countPromptTokens EncodingForModel Marshal model (Some cc2))
   \<and> (map projectMessage (req_messages rq1) = map projectMessage (req_messages rq2) \<longrightarrow>
      countPromptTokens EncodingForModel marshalRequest model (Some rq1) =
      countPromptTokens EncodingForModel marshalRequest model (Some rq2))
   \<and> countPromptTokens EncodingForModel marshalRequest model (Some (rq\<lparr>req_tools := ts\<rparr>)) =
      countPromptTokens EncodingForModel marshalRequest model (Some rq)"
proof -
  have 1: "countPromptTokens EncodingForModel marshalRequest model (Some rq1) =
      countPromptTokens EncodingForModel marshalRequest model (Some rq2)"
    if "map projectMessage (req_messages rq1) = map projectMessage (req_messages rq2)"
  proof -
    have "map (\<lambda>m. coerceMessage (projectMessage m)) (req_messages rq1) =
          map coerceMessage (map projectMessage (req_messages rq1))" by simp
    also have "\<dots> = map coerceMessage (map projectMessage (req_messages rq2))"
      using that by simp
    also have "\<dots> = map (\<lambda>m. coerceMessage (projectMessage m)) (req_messages rq2)" by simp
    finally have "toTokenRequest marshalRequest rq1 = toTokenRequest marshalRequest rq2"
      by (simp add: toTokenRequest_marshalRequest)
    then show ?thesis by (rule countPromptTokens_cong_request)
  qed
  have 2: "countPromptTokens EncodingForModel marshalRequest model (Some (rq\<lparr>req_tools := ts\<rparr>)) =
      countPromptTokens EncodingForModel marshalRequest model (Some rq)"
    by (rule countPromptTokens_cong_request) (simp add: toTokenRequest_marshalRequest)
  from 1 2 countPromptTokens_cong_request [of Marshal cc1 cc2 EncodingForModel model]
  show ?thesis by blast
qed

theorem tools_not_counted_witness:
  "countPromptTokens exampleEncodings marshalRequest ''gpt-4-0613''
     (Some \<lparr>req_messages = [\<lparr>msg_role = ''user'', msg_name = None, msg_content = ''hello'',
                              msg_tool_calls = [JObject [(''id'', JString ''call_1'')]]\<rparr>],
            req_tools = [JObject [(''type'', JString ''function'')]]\<rparr>)
   = countPromptTokens exampleEncodings marshalRequest ''gpt-4-0613''
     (Some \<lparr>req_messages = [\<lparr>msg_role = ''user'', msg_name = Some [], msg_content = ''hello'',
                              msg_tool_calls = []\<rparr>],
            req_tools = []\<rparr>)"
  (is "countPromptTokens _ _ _ (Some ?rq1) = countPromptTokens _ _ _ (Some ?rq2)")
proof -
  have "map projectMessage (req_messages ?rq1) = map projectMessage (req_messages ?rq2)"
    by (simp add: projectMessage_def)
  then show ?thesis
    by (rule tools_not_counted [where Marshal = marshalRequest and ?rq1.0 = ?rq1 and ?rq2.0 = ?rq2,
          THEN conjunct2, THEN conjunct1, THEN mp])
qed

text \<open>
  Claim C7. For a supported model, a request that is not nil and has no messages
  counts to 0 with no error: both for a request that normalizes to the empty list and
  for a request of the specification's type whose list of messages is empty.
\<close>

theorem no_messages:
  assumes "EncodingForModel model \<noteq> None"
    and "resolvedModel model = Some m"
    and "EncodingForModel m \<noteq> None"
  shows "(toTokenRequest Marshal cc = Inr \<lparr>Messages = []\<rparr> \<longrightarrow>
            countPromptTokens EncodingForModel Marshal model (Some cc) = (0, None))
         \<and> (req_messages rq = [] \<longrightarrow>
            countPromptTokens EncodingForModel marshalRequest model (Some rq) = (0, None))"
  using assms
  by (auto simp: countPromptTokens_resolved sumPromptTokens_Inr toTokenRequest_marshalRequest)

theorem no_messages_witness:
  "countPromptTokens exampleEncodings marshalRequest ''gpt-3.5-turbo''
     (Some \<lparr>req_messages = [], req_tools = [JObject [(''type'', JString ''function'')]]\<rparr>) = (0, None)"
proof -
  have a: "exampleEncodings ''gpt-3.5-turbo'' \<noteq> None" by (simp add: exampleEncodings_def)
  have b: "resolvedModel ''gpt-3.5-turbo'' = Some ''gpt-3.5-turbo-0613''"
    by (simp add: resolvedModel_def exactModel_def)
  have c: "exampleEncodings ''gpt-3.5-turbo-0613'' \<noteq> None" by simp
  from no_messages [where EncodingForModel = exampleEncodings and Marshal = marshalRequest
        and rq = "\<lparr>req_messages = [], req_tools = [JObject [(''type'', JString ''function'')]]\<rparr>",
        OF a b c]
  show ?thesis by simp
qed

subsection \<open>Normalization\<close>

text \<open>
  Claim C8, as stated, fails for a message that is not valid UTF-8: content that is the
  single byte FF comes back as the three bytes of the replacement character, which is
  not the content of the projection.
\<close>

theorem normalized_counterexample:
  "toTokenRequest marshalRequest (exampleRequest [userMessage [CHR 0xFF] None]) =
     Inr \<lparr>Messages = [\<lparr>Name = [], Role = ''user'', Content = [CHR 0xEF, CHR 0xBF, CHR 0xBD]\<rparr>]\<rparr>
   \<and> projectMessage (userMessage [CHR 0xFF] None) =
       \<lparr>Name = [], Role = ''user'', Content = [CHR 0xFF]\<rparr>"
  by (simp add: toTokenRequest_marshalRequest exampleRequest_def userMessage_def
        coerceMessage_def projectMessage_def acceptRanges_def RuneError_def)

text \<open>
  Claim C8, amended. When normalization succeeds, the normalized list is as long as the
  list of messages of the request, and the message at each position is the projection
  of the request's message at that position to name, role and content with each string
  coerced to valid UTF-8; where the three strings are valid UTF-8 it is the projection
  itself.
\<close>

theorem normalized_messages:
  assumes "toTokenRequest marshalRequest cc = Inr req"
  shows "length (Messages req) = length (req_messages cc)
         \<and> (\<forall>i < length (req_messages cc).
              Messages req ! i = coerceMessage (projectMessage (req_messages cc ! i))
              \<and> (ValidString (Name (projectMessage (req_messages cc ! i)))
                 \<and> ValidString (Role (projectMessage (req_messages cc ! i)))
                 \<and> ValidString (Content (projectMessage (req_messages cc ! i)))
                 \<longrightarrow> Messages req ! i = projectMessage (req_messages cc ! i)))"
proof -
  from assms have req: "Messages req = map (\<lambda>m. coerceMessage (projectMessage m)) (req_messages cc)"
    by (auto simp: toTokenRequest_marshalRequest)
  have "coerceMessage msg = msg"
    if "ValidString (Name msg)" "ValidString (Role msg)" "ValidString (Content msg)" for msg
    using that by (simp add: coerceMessage_def coerceUTF8_ValidString)
  with req show ?thesis by simp
qed

theorem normalized_messages_witness:
  "toTokenRequest marshalRequest
      (exampleRequest [userMessage ''hi'' None, userMessage ''hello'' (Some ''a'')]) =
     Inr \<lparr>Messages = [\<lparr>Name = [], Role = ''user'', Content = ''hi''\<rparr>,
                      \<lparr>Name = ''a'', Role = ''user'', Content = ''hello''\<rparr>]\<rparr>
   \<and> length (Messages \<lparr>Messages = [\<lparr>Name = [], Role = ''user'', Content = ''hi''\<rparr>,
                      \<lparr>Name = ''a'', Role = ''user'', Content = ''hello''\<rparr>]\<rparr>)
     = length (req_messages (exampleRequest [userMessage ''hi'' None, userMessage ''hello'' (Some ''a'')]))"
proof -
  have a: "toTokenRequest marshalRequest
      (exampleRequest [userMessage ''hi'' None, userMessage ''hello'' (Some ''a'')]) =
     Inr \<lparr>Messages = [\<lparr>Name = [], Role = ''user'', Content = ''hi''\<rparr>,
                      \<lparr>Name = ''a'', Role = ''user'', Content = ''hello''\<rparr>]\<rparr>"
    by (simp add: toTokenRequest_marshalRequest exampleRequest_def userMessage_def
        coerceMessage_def projectMessage_def acceptRanges_def)
  from normalized_messages [OF a] a show ?thesis by blast
qed

subsection \<open>Termination\<close>

lemma countPromptTokensFuel_exact:
  "exactModel model \<Longrightarrow>
   countPromptTokensFuel fuel E M model cc = Some (countPromptTokens E M model cc)"
  by (subst countPromptTokensFuel.simps, subst countPromptTokens.simps)
     (auto simp: exactModel_def split: option.splits)

text \<open>
  Claim C9. The function returns on every input after at most one recursive call: with
  fuel for one call the bounded function returns what \<open>countPromptTokens\<close> returns,
  and for the two identifiers the default branch recurses with it returns with no fuel
  at all, since both are in the table.
\<close>

theorem one_recursive_call:
  "countPromptTokensFuel (Suc 0) EncodingForModel Marshal model cc =
     Some (countPromptTokens EncodingForModel Marshal model cc)
   \<and> countPromptTokensFuel 0 EncodingForModel Marshal ''gpt-3.5-turbo-0613'' cc =
     Some (countPromptTokens EncodingForModel Marshal ''gpt-3.5-turbo-0613'' cc)
   \<and> countPromptTokensFuel 0 EncodingForModel Marshal ''gpt-4-0613'' cc =
     Some (countPromptTokens EncodingForModel Marshal ''gpt-4-0613'' cc)"
proof -
  have "countPromptTokensFuel (Suc 0) EncodingForModel Marshal model cc =
     Some (countPromptTokens EncodingForModel Marshal model cc)"
  proof (cases "exactModel model")
    case True
    then show ?thesis by (rule countPromptTokensFuel_exact)
  next
    case False
    then show ?thesis
      by (subst countPromptTokensFuel.simps, subst countPromptTokens.simps)
         (auto simp: exactModel_def countPromptTokensFuel_exact split: option.splits)
  qed
  then show ?thesis by (simp add: countPromptTokensFuel_exact)
qed

theorem one_recursive_call_witness:
  "countPromptTokensFuel (Suc 0) exampleEncodings marshalRequest ''gpt-4''
     (Some (exampleRequest [userMessage ''hi'' None])) = Some (9, None)
   \<and> countPromptTokensFuel 0 exampleEncodings marshalRequest ''gpt-4''
     (Some (exampleRequest [userMessage ''hi'' None])) = None"
proof -
  have "countPromptTokens exampleEncodings marshalRequest ''gpt-4''
     (Some (exampleRequest [userMessage ''hi'' None])) = (9, None)"
    by (simp add: exactModel_def countPromptTokens_resolved resolvedModel_def
        sumPromptTokens_Inr toTokenRequest_example messageCost_def count_def byteTokens_def)
  with one_recursive_call [of exampleEncodings marshalRequest "''gpt-4''"
        "Some (exampleRequest [userMessage ''hi'' None])"]
  have "countPromptTokensFuel (Suc 0) exampleEncodings marshalRequest ''gpt-4''
     (Some (exampleRequest [userMessage ''hi'' None])) = Some (9, None)" by simp
  moreover have "countPromptTokensFuel 0 exampleEncodings marshalRequest ''gpt-4''
     (Some (exampleRequest [userMessage ''hi'' None])) = None"
    by (subst countPromptTokensFuel.simps) simp
  ultimately show ?thesis by blast
qed

subsection \<open>A lower bound\<close>

lemma messageCost_ge_3:
  "exactModel m \<Longrightarrow> 3 \<le> messageCost (fixedCostOf m) tkm msg"
  by (cases "m = ''gpt-3.5-turbo-0301''") (simp_all add: messageCost_def count_def)

lemma sum_messageCost_ge:
  "exactModel m \<Longrightarrow> 3 * int (length msgs) \<le> sum_list (map (messageCost (fixedCostOf m) tkm) msgs)"
proof (induction msgs)
  case Nil
  then show ?case by simp
next
  case (Cons msg msgs)
  with messageCost_ge_3 [of m tkm msg] show ?case by simp
qed

text \<open>
  Claim C10. When the function returns no error, the request is not nil and normalizes,
  and the count is at least 3 times the number of normalized messages, hence not
  negative. (A token count is the length of a list, so it is never negative.)
\<close>

theorem count_lower_bound:
  assumes "snd (countPromptTokens EncodingForModel Marshal model cc) = None"
  shows "\<exists>rq req. cc = Some rq \<and> toTokenRequest Marshal rq = Inr req
           \<and> 3 * int (length (Messages req)) \<le> fst (countPromptTokens EncodingForModel Marshal model cc)
           \<and> 0 \<le> fst (countPromptTokens EncodingForModel Marshal model cc)"
proof -
  from assms obtain rq where rq: "cc = Some rq"
    by (cases cc) (simp_all add: countPromptTokens_nil)
  from assms rq obtain tkm0 m tkm where
    e: "EncodingForModel model = Some tkm0" "resolvedModel model = Some m" "EncodingForModel m = Some tkm"
    by (auto simp: countPromptTokens_resolved split: option.splits)
  from assms rq e obtain req where req: "toTokenRequest Marshal rq = Inr req"
    by (cases "toTokenRequest Marshal rq") (simp_all add: countPromptTokens_resolved sumPromptTokens_Inl)
  from e(2) have "exactModel m" by (rule resolvedModel_exact)
  then have "3 * int (length (Messages req)) \<le> sum_list (map (messageCost (fixedCostOf m) tkm) (Messages req))"
    by (rule sum_messageCost_ge)
  with rq e req show ?thesis
    by (simp add: countPromptTokens_resolved sumPromptTokens_Inr)
qed

theorem count_lower_bound_witness:
  "snd (countPromptTokens exampleEncodings marshalRequest ''gpt-3.5-turbo-0301''
     (Some (exampleRequest [userMessage [] (Some ''a'')]))) = None
   \<and> countPromptTokens exampleEncodings marshalRequest ''gpt-3.5-turbo-0301''
     (Some (exampleRequest [userMessage [] (Some ''a'')])) = (8, None)
   \<and> (3::int) * 1 \<le> 8"
proof -
  have a: "countPromptTokens exampleEncodings marshalRequest ''gpt-3.5-turbo-0301''
     (Some (exampleRequest [userMessage [] (Some ''a'')])) = (8, None)"
    by (simp add: countPromptTokens_resolved resolvedModel_def exactModel_def
        sumPromptTokens_def toTokenRequest_marshalRequest exampleRequest_def userMessage_def
        coerceMessage_def projectMessage_def acceptRanges_def addMessage_def count_def byteTokens_def)
  then have b: "snd (countPromptTokens exampleEncodings marshalRequest ''gpt-3.5-turbo-0301''
     (Some (exampleRequest [userMessage [] (Some ''a'')]))) = None" by simp
  from count_lower_bound [OF b] a b show ?thesis by simp
qed


end
